theory Spec2Isabelle
  imports Main "HOL-Library.Word"
begin

unbundle bit_operations_syntax

section \<open>C values\<close>

text \<open>
  \<open>int\<close> and \<open>pid_t\<close> are 32-bit machine integers: \<open>+\<close> wraps, \<open><s\<close> is the signed
  comparison. A \<open>const char *\<close> is a string or the null pointer (\<open>None\<close>).
\<close>

type_synonym c_int = "32 word"
type_synonym c_str = "string option"

section \<open>What the program takes from its platform\<close>

text \<open>
  \<open>main.c\<close> uses macros and functions of the C library that are not part of the
  repository: the status macros and the option flag \<open>WNOHANG\<close> of \<open><sys/wait.h>\<close>, and
  the error number \<open>EINTR\<close>.
  They are parameters of the model: every property below holds for each value of them,
  unless it says otherwise.
\<close>

record platform =
  WIFEXITED :: "c_int \<Rightarrow> bool"
  WEXITSTATUS :: "c_int \<Rightarrow> c_int"
  WIFSIGNALED :: "c_int \<Rightarrow> bool"
  WTERMSIG :: "c_int \<Rightarrow> c_int"
  EINTR :: c_int
  WNOHANG :: c_int

section \<open>The operating system and the session bus\<close>

text \<open>
  An argument of the variadic \<open>sd_bus_call_method\<close> is a string or an \<open>int\<close>; a request
  is what the call passes: destination, object path, interface, member, the type string
  and the arguments after it, in the order of the call.
\<close>

datatype vararg = VStr c_str | VInt c_int

record bus_request =
  destination :: string
  path :: string
  interface :: string
  member :: string
  types :: string
  args :: "vararg list"

text \<open>The reply to a method call: the return value and \<open>error.message\<close>.\<close>

record bus_reply =
  r_ret :: c_int
  error_message :: c_str

text \<open>
  What one call of \<open>waitpid\<close> gives back: the return value, \<open>errno\<close> after the call, and
  the value stored through the status pointer (\<open>None\<close>: nothing is stored).
\<close>

record wait_reply =
  w_ret :: c_int
  w_errno :: c_int
  w_status :: "c_int option"

text \<open>
  The environment of one run. \<open>sys_waitpid pid options k\<close> answers the \<open>k\<close>-th call of
  \<open>waitpid\<close> (counted from 0) when it is made with these arguments, and \<open>sys_pause k\<close> the
  \<open>k\<close>-th call of \<open>pause\<close>; \<open>None\<close> and \<open>False\<close> mean that the call never returns. \<open>sys_posix_spawnp\<close> gives the return value and the
  process identifier stored for the child. \<open>wstatus_init\<close> is the content of the local
  variable \<open>wstatus\<close> before the wait: the code declares it without an initial value.
\<close>

record os =
  sys_getenv :: "string \<Rightarrow> c_str"
  sys_bus_open_user :: c_int
  sys_bus_call_method :: "bus_request \<Rightarrow> bus_reply"
  sys_pause :: "nat \<Rightarrow> bool"
  sys_posix_spawnp :: "c_str \<Rightarrow> string list \<Rightarrow> c_int \<times> c_int"
  sys_waitpid :: "c_int \<Rightarrow> c_int \<Rightarrow> nat \<Rightarrow> wait_reply option"
  wstatus_init :: c_int

section \<open>What a run does\<close>

text \<open>
  The visible actions of a run, in order: text written to the error stream
  (\<open>fputs\<close>, and \<open>fprintf\<close> with its format and arguments), method calls on the bus, and
  the system calls \<open>pause\<close>, \<open>posix_spawnp\<close> (file and argument vector) and \<open>waitpid\<close>
  (process identifier and options). An argument of \<open>fprintf\<close> is a string, an \<open>int\<close>, or
  the message that \<open>strerror\<close> or \<open>strsignal\<close> has for a number.
\<close>

datatype fmt_arg = ArgS c_str | ArgD c_int | ArgStrerror c_int | ArgStrsignal c_int

datatype event =
    Fputs string
  | Fprintf string "fmt_arg list"
  | BusCall bus_request
  | Pause
  | Spawn c_str "string list"
  | Waitpid c_int c_int

text \<open>
  How a run stands when it is observed: \<open>main\<close> has returned a value, or the program is
  inside a system call that never returns, or it is still looping when the fuel given to
  its loops has run out.
\<close>

datatype outcome = Exited c_int | Blocked | OutOfFuel

text \<open>The result of a loop around a system call.\<close>

datatype 'a loop_result = Returns 'a | Blocks | Unfinished

text \<open>The three global variables of \<open>main.c\<close>, and the actions performed so far.\<close>

record state =
  verbose_output :: bool
  inhibit_reason :: c_str
  application :: c_str
  trace :: "event list"

definition emit :: "event \<Rightarrow> state \<Rightarrow> state" where
  "emit e st = st\<lparr>trace := trace st @ [e]\<rparr>"

text \<open>\<open>argv[i]\<close>: the C runtime ends the vector with a null pointer, \<open>argv[argc]\<close>.\<close>

definition argv_at :: "string list \<Rightarrow> nat \<Rightarrow> c_str" where
  "argv_at argv i = (if i < length argv then Some (argv ! i) else None)"

section \<open>The program\<close>

definition debug :: "string \<Rightarrow> state \<Rightarrow> state" where
  "debug s st = (if verbose_output st then emit (Fputs s) st else st)"

definition inhibit_via_inhibit_portal :: "os \<Rightarrow> state \<Rightarrow> bool \<times> state" where
  "inhibit_via_inhibit_portal w st =
     (let st1 = debug ''Trying to inhibit idle via org.freedesktop.portal.Inhibit interface: '' st;
          req = \<lparr>destination = ''org.freedesktop.portal.Desktop'',
                 path = ''/org/freedesktop/portal/desktop'',
                 interface = ''org.freedesktop.portal.Inhibit'',
                 member = ''Inhibit'',
                 types = ''sua{sv}'',
                 args = [VStr (Some ''''), VInt 8, VInt 1, VStr (Some ''reason''),
                         VStr (Some ''s''), VStr (inhibit_reason st)]\<rparr>;
          st2 = emit (BusCall req) st1;
          rep = sys_bus_call_method w req
      in if r_ret rep <s 0
         then (False, emit (Fprintf ''Failed to inhibit idle: %s\<newline>'' [ArgS (error_message rep)])
                        (debug ''Failed.\<newline>'' st2))
         else (True, debug ''Ok.\<newline>'' st2))"

definition inhibit_via_screen_saver :: "os \<Rightarrow> state \<Rightarrow> bool \<times> state" where
  "inhibit_via_screen_saver w st =
     (let st1 = debug ''Trying to inhibit screensaver via org.freedesktop.ScreenSaver interface: '' st;
          req = \<lparr>destination = ''org.freedesktop.ScreenSaver'',
                 path = ''/org/freedesktop/ScreenSaver'',
                 interface = ''org.freedesktop.ScreenSaver'',
                 member = ''Inhibit'',
                 types = ''ss'',
                 args = [VStr (inhibit_reason st), VStr (application st)]\<rparr>;
          st2 = emit (BusCall req) st1;
          rep = sys_bus_call_method w req
      in if r_ret rep <s 0
         then (False, emit (Fprintf ''Failed to inhibit screensaver: %s\<newline>'' [ArgS (error_message rep)])
                        (debug ''Failed.\<newline>'' st2))
         else (True, debug ''Ok.\<newline>'' st2))"

definition inhibit_via_power_management :: "os \<Rightarrow> state \<Rightarrow> bool \<times> state" where
  "inhibit_via_power_management w st =
     (let st1 = debug ''Trying to inhibit power management via org.freedesktop.PowerManagement.Inhibit interface: '' st;
          req = \<lparr>destination = ''org.freedesktop.PowerManagement.Inhibit'',
                 path = ''/org/freedesktop/PowerManagement/Inhibit'',
                 interface = ''org.freedesktop.PowerManagement.Inhibit'',
                 member = ''Inhibit'',
                 types = ''ss'',
                 args = [VStr (inhibit_reason st), VStr (application st)]\<rparr>;
          st2 = emit (BusCall req) st1;
          rep = sys_bus_call_method w req
      in if r_ret rep <s 0
         then (False, emit (Fprintf ''Failed to inhibit power saving: %s\<newline>'' [ArgS (error_message rep)])
                        (debug ''Failed.\<newline>'' st2))
         else (True, debug ''Ok.\<newline>'' st2))"

text \<open>
  Lines 82 to 84 of \<open>main\<close>: the globals are set from the environment and the argument
  vector. \<open>getenv(...) ?: d\<close> is \<open>d\<close> exactly when \<open>getenv\<close> returns the null pointer.
\<close>

definition main_config :: "os \<Rightarrow> string list \<Rightarrow> state" where
  "main_config w argv =
     \<lparr>verbose_output = (sys_getenv w ''INHIBIT_DEBUG'' \<noteq> None),
      inhibit_reason = (case sys_getenv w ''INHIBIT_REASON'' of
                          Some r \<Rightarrow> Some r
                        | None \<Rightarrow> Some ''A game is running''),
      application = (if length argv < 2 then argv_at argv 0 else argv_at argv 1),
      trace = []\<rparr>"

text \<open>Lines 93 to 95: the three calls, their results discarded.\<close>

definition main_inhibit :: "os \<Rightarrow> state \<Rightarrow> state" where
  "main_inhibit w st =
     (let st1 = snd (inhibit_via_inhibit_portal w st);
          st2 = snd (inhibit_via_screen_saver w st1);
          st3 = snd (inhibit_via_power_management w st2)
      in st3)"

text \<open>
  Lines 98 to 100, \<open>while (true) pause();\<close>. The loop has no exit; one unit of fuel is
  one iteration, and \<open>k\<close> counts the calls of \<open>pause\<close> made before.
\<close>

fun pause_loop :: "os \<Rightarrow> nat \<Rightarrow> nat \<Rightarrow> state \<Rightarrow> state \<times> outcome" where
  "pause_loop w 0 k st = (st, OutOfFuel)"
| "pause_loop w (Suc fuel) k st =
     (let st' = emit Pause st
      in if sys_pause w k then pause_loop w fuel (Suc k) st' else (st', Blocked))"

text \<open>
  Modelled from the spec: the macro \<open>TEMP_FAILURE_RETRY\<close> of the C library is not among
  the sources. Section 4.2, step 3: the wait is retried when it is interrupted by a
  signal delivery, until it reports something else; interrupted is a return value of
  \<open>-1\<close> with \<open>errno\<close> equal to \<open>EINTR\<close>. The expression retried is that of line 113,
  \<open>waitpid(child_pid, &wstatus, 0)\<close>; the loop carries the content of \<open>wstatus\<close>.
\<close>

fun temp_failure_retry_waitpid ::
  "platform \<Rightarrow> os \<Rightarrow> c_int \<Rightarrow> nat \<Rightarrow> nat \<Rightarrow> state \<times> c_int \<Rightarrow> (state \<times> c_int) \<times> c_int loop_result"
where
  "temp_failure_retry_waitpid p w pid 0 k (st, wstatus) = ((st, wstatus), Unfinished)"
| "temp_failure_retry_waitpid p w pid (Suc fuel) k (st, wstatus) =
     (let st' = emit (Waitpid pid 0) st
      in case sys_waitpid w pid 0 k of
           None \<Rightarrow> ((st', wstatus), Blocks)
         | Some r \<Rightarrow>
             (let wstatus' = (case w_status r of None \<Rightarrow> wstatus | Some s \<Rightarrow> s)
              in if w_ret r = - 1 \<and> w_errno r = EINTR p
                 then temp_failure_retry_waitpid p w pid fuel (Suc k) (st', wstatus')
                 else ((st', wstatus'), Returns (w_ret r))))"

text \<open>Lines 114 to 132: the exit code from the result of the wait.\<close>

definition main_report :: "platform \<Rightarrow> c_int \<Rightarrow> c_int \<Rightarrow> state \<Rightarrow> state \<times> outcome" where
  "main_report p rc wstatus st =
     (if rc \<noteq> 0 then
        if WIFEXITED p wstatus then
          ((if WEXITSTATUS p wstatus = 0
            then debug ''Child process exited normally\<newline>'' st
            else emit (Fprintf ''Child process exited with code %d\<newline>''
                         [ArgD (WEXITSTATUS p wstatus)]) st),
           Exited (WEXITSTATUS p wstatus))
        else if WIFSIGNALED p wstatus then
          (emit (Fprintf ''Child process killed by signal %s\<newline>''
                   [ArgStrsignal (WTERMSIG p wstatus)]) st,
           Exited (WTERMSIG p wstatus + 128))
        else (emit (Fprintf ''Child process exited abnormally'' []) st, Exited 127)
      else (emit (Fprintf ''Child process does not exist'' []) st, Exited 1))"

text \<open>Lines 103 to 113: the child is started and waited for.\<close>

definition main_supervise :: "platform \<Rightarrow> os \<Rightarrow> string list \<Rightarrow> nat \<Rightarrow> state \<Rightarrow> state \<times> outcome" where
  "main_supervise p w argv fuel st =
     (let st1 = debug ''Starting process: '' st;
          st2 = emit (Spawn (argv_at argv 1) (drop 1 argv)) st1;
          (ret, child_pid) = sys_posix_spawnp w (argv_at argv 1) (drop 1 argv)
      in if ret \<noteq> 0
         then (emit (Fprintf ''Failed to start process: %s\<newline>'' [ArgStrerror ret]) st2,
               Exited 1)
         else
           (let st3 = debug ''OK\<newline>'' st2
            in case temp_failure_retry_waitpid p w child_pid fuel 0 (st3, wstatus_init w) of
                 ((st4, wstatus), Returns rc) \<Rightarrow> main_report p rc wstatus st4
               | ((st4, wstatus), Blocks) \<Rightarrow> (st4, Blocked)
               | ((st4, wstatus), Unfinished) \<Rightarrow> (st4, OutOfFuel)))"

definition main :: "platform \<Rightarrow> os \<Rightarrow> string list \<Rightarrow> nat \<Rightarrow> state \<times> outcome" where
  "main p w argv fuel =
     (let st = main_config w argv;
          ret = sys_bus_open_user w
      in if ret <s 0
         then (emit (Fprintf ''Failed to connect to user bus: %s\<newline>'' [ArgStrerror (- ret)]) st,
               Exited 1)
         else
           (let st3 = main_inhibit w st
            in if length argv < 2
               then pause_loop w fuel 0 st3
               else main_supervise p w argv fuel st3))"

section \<open>Observing a run\<close>

text \<open>The actions of a run other than its writes to the error stream.\<close>

fun is_stderr :: "event \<Rightarrow> bool" where
  "is_stderr (Fputs s) = True"
| "is_stderr (Fprintf f xs) = True"
| "is_stderr e = False"

definition actions :: "event list \<Rightarrow> event list" where
  "actions tr = filter (\<lambda>e. \<not> is_stderr e) tr"

text \<open>The requests sent over the bus, in the order of the calls.\<close>

fun bus_calls :: "event list \<Rightarrow> bus_request list" where
  "bus_calls [] = []"
| "bus_calls (BusCall r # es) = r # bus_calls es"
| "bus_calls (e # es) = bus_calls es"

text \<open>
  A wait interrupted by the delivery of a signal: it returns \<open>-1\<close>, sets \<open>errno\<close> to
  \<open>EINTR\<close> and stores no status.
\<close>

definition interrupted_wait :: "platform \<Rightarrow> wait_reply \<Rightarrow> bool" where
  "interrupted_wait p r = (w_ret r = - 1 \<and> w_errno r = EINTR p \<and> w_status r = None)"

text \<open>
  One value of the platform, used to run the model on concrete inputs: the status
  macros as the GNU C library defines them on Linux (the low seven bits hold the
  terminating signal, the next eight the exit code), \<open>EINTR = 4\<close> and \<open>WNOHANG = 1\<close>.
\<close>

definition linux_platform :: platform where
  "linux_platform =
     \<lparr>WIFEXITED = (\<lambda>s. s AND 0x7f = 0),
      WEXITSTATUS = (\<lambda>s. drop_bit 8 (s AND 0xff00)),
      WIFSIGNALED = (\<lambda>s. (0 :: 8 word) <s signed_drop_bit 1 (ucast ((s AND 0x7f) + 1))),
      WTERMSIG = (\<lambda>s. s AND 0x7f),
      EINTR = 4,
      WNOHANG = 1\<rparr>"

text \<open>
  Concrete environments. In \<open>sample_os\<close> the portal call fails and the two others
  succeed, the reason is set in the environment, the child gets the process identifier
  4242, the first wait is interrupted and the second reports the status 9 (killed by
  signal 9). In \<open>echild_os\<close> every wait fails with \<open>ECHILD\<close> (10), as it does when the child
  was reaped already because \<open>SIGCHLD\<close> is ignored, and stores nothing. In \<open>polling_os\<close> a wait
  called with \<open>WNOHANG\<close> (1) returns 0 and stores nothing, and every other wait reports
  that the child exited with code 7.
\<close>

definition sample_os :: os where
  "sample_os =
     \<lparr>sys_getenv = (\<lambda>n. if n = ''INHIBIT_REASON'' then Some ''X'' else None),
      sys_bus_open_user = 0,
      sys_bus_call_method =
        (\<lambda>r. if destination r = ''org.freedesktop.portal.Desktop''
             then \<lparr>r_ret = - 2, error_message = Some ''no portal''\<rparr>
             else \<lparr>r_ret = 1, error_message = None\<rparr>),
      sys_pause = (\<lambda>k. True),
      sys_posix_spawnp = (\<lambda>file argv. (0, 4242)),
      sys_waitpid =
        (\<lambda>pid opts k. if k = 0 then Some \<lparr>w_ret = - 1, w_errno = 4, w_status = None\<rparr>
             else Some \<lparr>w_ret = 4242, w_errno = 0, w_status = Some 9\<rparr>),
      wstatus_init = 0\<rparr>"

definition echild_os :: os where
  "echild_os =
     \<lparr>sys_getenv = (\<lambda>n. None),
      sys_bus_open_user = 0,
      sys_bus_call_method = (\<lambda>r. \<lparr>r_ret = 1, error_message = None\<rparr>),
      sys_pause = (\<lambda>k. True),
      sys_posix_spawnp = (\<lambda>file argv. (0, 4242)),
      sys_waitpid = (\<lambda>pid opts k. Some \<lparr>w_ret = - 1, w_errno = 10, w_status = None\<rparr>),
      wstatus_init = 0\<rparr>"

definition polling_os :: os where
  "polling_os =
     \<lparr>sys_getenv = (\<lambda>n. None),
      sys_bus_open_user = 0,
      sys_bus_call_method = (\<lambda>r. \<lparr>r_ret = 1, error_message = None\<rparr>),
      sys_pause = (\<lambda>k. True),
      sys_posix_spawnp = (\<lambda>file argv. (0, 4242)),
      sys_waitpid =
        (\<lambda>pid opts k. if opts AND 1 = 0
             then Some \<lparr>w_ret = 4242, w_errno = 0, w_status = Some 0x700\<rparr>
             else Some \<lparr>w_ret = 0, w_errno = 0, w_status = None\<rparr>),
      wstatus_init = 0\<rparr>"

section \<open>Basic facts about the steps of a run\<close>

lemma emit_fields [simp]:
  "verbose_output (emit e st) = verbose_output st"
  "inhibit_reason (emit e st) = inhibit_reason st"
  "application (emit e st) = application st"
  "trace (emit e st) = trace st @ [e]"
  by (simp_all add: emit_def)

lemma debug_fields [simp]:
  "verbose_output (debug s st) = verbose_output st"
  "inhibit_reason (debug s st) = inhibit_reason st"
  "application (debug s st) = application st"
  "trace (debug s st) = trace st @ (if verbose_output st then [Fputs s] else [])"
  by (simp_all add: debug_def)

lemma actions_simps [simp]:
  "actions [] = []"
  "actions (xs @ ys) = actions xs @ actions ys"
  "actions (e # es) = (if is_stderr e then actions es else e # actions es)"
  by (simp_all add: actions_def)

lemma portal_fields [simp]:
  "verbose_output (snd (inhibit_via_inhibit_portal w st)) = verbose_output st"
  "inhibit_reason (snd (inhibit_via_inhibit_portal w st)) = inhibit_reason st"
  "application (snd (inhibit_via_inhibit_portal w st)) = application st"
  by (simp_all add: inhibit_via_inhibit_portal_def Let_def)

lemma screen_saver_fields [simp]:
  "verbose_output (snd (inhibit_via_screen_saver w st)) = verbose_output st"
  "inhibit_reason (snd (inhibit_via_screen_saver w st)) = inhibit_reason st"
  "application (snd (inhibit_via_screen_saver w st)) = application st"
  by (simp_all add: inhibit_via_screen_saver_def Let_def)

lemma power_management_fields [simp]:
  "verbose_output (snd (inhibit_via_power_management w st)) = verbose_output st"
  "inhibit_reason (snd (inhibit_via_power_management w st)) = inhibit_reason st"
  "application (snd (inhibit_via_power_management w st)) = application st"
  by (simp_all add: inhibit_via_power_management_def Let_def)

lemma portal_actions:
  "actions (trace (snd (inhibit_via_inhibit_portal w st))) =
     actions (trace st) @
     [BusCall \<lparr>destination = ''org.freedesktop.portal.Desktop'',
               path = ''/org/freedesktop/portal/desktop'',
               interface = ''org.freedesktop.portal.Inhibit'',
               member = ''Inhibit'',
               types = ''sua{sv}'',
               args = [VStr (Some ''''), VInt 8, VInt 1, VStr (Some ''reason''),
                       VStr (Some ''s''), VStr (inhibit_reason st)]\<rparr>]"
  by (simp add: inhibit_via_inhibit_portal_def Let_def)

lemma screen_saver_actions:
  "actions (trace (snd (inhibit_via_screen_saver w st))) =
     actions (trace st) @
     [BusCall \<lparr>destination = ''org.freedesktop.ScreenSaver'',
               path = ''/org/freedesktop/ScreenSaver'',
               interface = ''org.freedesktop.ScreenSaver'',
               member = ''Inhibit'',
               types = ''ss'',
               args = [VStr (inhibit_reason st), VStr (application st)]\<rparr>]"
  by (simp add: inhibit_via_screen_saver_def Let_def)

lemma power_management_actions:
  "actions (trace (snd (inhibit_via_power_management w st))) =
     actions (trace st) @
     [BusCall \<lparr>destination = ''org.freedesktop.PowerManagement.Inhibit'',
               path = ''/org/freedesktop/PowerManagement/Inhibit'',
               interface = ''org.freedesktop.PowerManagement.Inhibit'',
               member = ''Inhibit'',
               types = ''ss'',
               args = [VStr (inhibit_reason st), VStr (application st)]\<rparr>]"
  by (simp add: inhibit_via_power_management_def Let_def)

lemma main_inhibit_fields [simp]:
  "verbose_output (main_inhibit w st) = verbose_output st"
  "inhibit_reason (main_inhibit w st) = inhibit_reason st"
  "application (main_inhibit w st) = application st"
  by (simp_all add: main_inhibit_def Let_def)

lemma main_inhibit_actions:
  "actions (trace (main_inhibit w st)) =
     actions (trace st) @
     [BusCall \<lparr>destination = ''org.freedesktop.portal.Desktop'',
               path = ''/org/freedesktop/portal/desktop'',
               interface = ''org.freedesktop.portal.Inhibit'',
               member = ''Inhibit'',
               types = ''sua{sv}'',
               args = [VStr (Some ''''), VInt 8, VInt 1, VStr (Some ''reason''),
                       VStr (Some ''s''), VStr (inhibit_reason st)]\<rparr>,
      BusCall \<lparr>destination = ''org.freedesktop.ScreenSaver'',
               path = ''/org/freedesktop/ScreenSaver'',
               interface = ''org.freedesktop.ScreenSaver'',
               member = ''Inhibit'',
               types = ''ss'',
               args = [VStr (inhibit_reason st), VStr (application st)]\<rparr>,
      BusCall \<lparr>destination = ''org.freedesktop.PowerManagement.Inhibit'',
               path = ''/org/freedesktop/PowerManagement/Inhibit'',
               interface = ''org.freedesktop.PowerManagement.Inhibit'',
               member = ''Inhibit'',
               types = ''ss'',
               args = [VStr (inhibit_reason st), VStr (application st)]\<rparr>]"
  by (simp add: main_inhibit_def Let_def portal_actions screen_saver_actions power_management_actions)

lemma pause_loop_not_exited: "snd (pause_loop w fuel k st) \<noteq> Exited c"
  by (induction fuel arbitrary: k st) (simp_all add: Let_def)

lemma pause_loop_trace:
  "\<exists>j\<le>fuel. trace (fst (pause_loop w fuel k st)) = trace st @ replicate j Pause"
proof (induction fuel arbitrary: k st)
  case 0
  then show ?case by simp
next
  case (Suc fuel)
  show ?case
  proof (cases "sys_pause w k")
    case True
    from Suc.IH [of "Suc k" "emit Pause st"] obtain j where
      j: "j \<le> fuel" "trace (fst (pause_loop w fuel (Suc k) (emit Pause st))) = trace (emit Pause st) @ replicate j Pause"
      by blast
    have "trace (fst (pause_loop w (Suc fuel) k st)) = trace st @ replicate (Suc j) Pause"
      using True j by (simp add: Let_def)
    with j(1) show ?thesis by (metis Suc_le_mono)
  next
    case False
    have "trace (fst (pause_loop w (Suc fuel) k st)) = trace st @ replicate 1 Pause"
      using False by (simp add: Let_def)
    then show ?thesis by (metis One_nat_def Suc_le_mono le0)
  qed
qed

lemma pause_loop_fields [simp]:
  "verbose_output (fst (pause_loop w fuel k st)) = verbose_output st"
  "inhibit_reason (fst (pause_loop w fuel k st)) = inhibit_reason st"
  "application (fst (pause_loop w fuel k st)) = application st"
  by (induction fuel arbitrary: k st; simp add: Let_def)+

lemma bus_calls_append [simp]: "bus_calls (xs @ ys) = bus_calls xs @ bus_calls ys"
  by (induction xs rule: bus_calls.induct) simp_all

lemma bus_calls_actions: "bus_calls (actions tr) = bus_calls tr"
  by (induction tr rule: bus_calls.induct) simp_all

lemma bus_calls_replicate [simp]:
  "bus_calls (replicate j Pause) = []"
  "bus_calls (replicate j (Waitpid pid opts)) = []"
  by (induction j) simp_all

lemma actions_replicate [simp]:
  "actions (replicate j Pause) = replicate j Pause"
  "actions (replicate j (Waitpid pid opts)) = replicate j (Waitpid pid opts)"
  by (induction j) simp_all

lemma retry_trace:
  "\<exists>j\<le>fuel. trace (fst (fst (temp_failure_retry_waitpid p w pid fuel k (st, ws)))) =
       trace st @ replicate j (Waitpid pid 0)"
proof (induction fuel arbitrary: k st ws)
  case 0
  then show ?case by simp
next
  case (Suc fuel)
  show ?case
  proof (cases "sys_waitpid w pid 0 k")
    case None
    then have "trace (fst (fst (temp_failure_retry_waitpid p w pid (Suc fuel) k (st, ws)))) =
        trace st @ replicate (Suc 0) (Waitpid pid 0)"
      by (simp add: Let_def)
    then show ?thesis by (metis Suc_le_mono le0)
  next
    case (Some r)
    define ws' where "ws' = (case w_status r of None \<Rightarrow> ws | Some s \<Rightarrow> s)"
    show ?thesis
    proof (cases "w_ret r = - 1 \<and> w_errno r = EINTR p")
      case True
      from Suc.IH [of "Suc k" "emit (Waitpid pid 0) st" ws'] obtain j where
        j: "j \<le> fuel"
           "trace (fst (fst (temp_failure_retry_waitpid p w pid fuel (Suc k) (emit (Waitpid pid 0) st, ws')))) =
              trace (emit (Waitpid pid 0) st) @ replicate j (Waitpid pid 0)"
        by blast
      have "trace (fst (fst (temp_failure_retry_waitpid p w pid (Suc fuel) k (st, ws)))) =
          trace st @ replicate (Suc j) (Waitpid pid 0)"
        using Some True j(2) by (simp add: Let_def ws'_def)
      with j(1) show ?thesis by (metis Suc_le_mono)
    next
      case False
      then have "trace (fst (fst (temp_failure_retry_waitpid p w pid (Suc fuel) k (st, ws)))) =
          trace st @ replicate (Suc 0) (Waitpid pid 0)"
        using Some by (auto simp add: Let_def)
      then show ?thesis by (metis Suc_le_mono le0)
    qed
  qed
qed

lemma retry_fields [simp]:
  "verbose_output (fst (fst (temp_failure_retry_waitpid p w pid fuel k (st, ws)))) = verbose_output st"
  "inhibit_reason (fst (fst (temp_failure_retry_waitpid p w pid fuel k (st, ws)))) = inhibit_reason st"
  "application (fst (fst (temp_failure_retry_waitpid p w pid fuel k (st, ws)))) = application st"
  by (induction fuel arbitrary: k st ws; simp add: Let_def split: option.split)+

text \<open>The status and the result of the loop do not depend on the state it starts in.\<close>

lemma retry_independent:
  "snd (temp_failure_retry_waitpid p w pid fuel k (st, ws)) =
     snd (temp_failure_retry_waitpid p w pid fuel k (st', ws)) \<and>
   snd (fst (temp_failure_retry_waitpid p w pid fuel k (st, ws))) =
     snd (fst (temp_failure_retry_waitpid p w pid fuel k (st', ws)))"
  by (induction fuel arbitrary: k st st' ws) (simp_all add: Let_def split: option.split)

lemma retry_returns:
  assumes "\<forall>i<n. \<exists>r. sys_waitpid w pid 0 (k + i) = Some r \<and> interrupted_wait p r"
    and "sys_waitpid w pid 0 (k + n) = Some r"
    and "\<not> (w_ret r = - 1 \<and> w_errno r = EINTR p)"
    and "n < fuel"
  shows "snd (temp_failure_retry_waitpid p w pid fuel k (st, ws)) = Returns (w_ret r) \<and>
         snd (fst (temp_failure_retry_waitpid p w pid fuel k (st, ws))) =
           (case w_status r of None \<Rightarrow> ws | Some s \<Rightarrow> s)"
  using assms
proof (induction n arbitrary: k fuel st)
  case 0
  then obtain f where f: "fuel = Suc f" by (cases fuel) auto
  from 0 show ?case by (auto simp add: f Let_def)
next
  case (Suc n)
  then obtain f where f: "fuel = Suc f" by (cases fuel) auto
  from Suc.prems(1) obtain r0 where r0: "sys_waitpid w pid 0 k = Some r0" "interrupted_wait p r0"
    by (metis add.right_neutral zero_less_Suc)
  have a: "\<forall>i<n. \<exists>r. sys_waitpid w pid 0 (Suc k + i) = Some r \<and> interrupted_wait p r"
  proof (intro allI impI)
    fix i assume "i < n"
    then have "Suc i < Suc n" by simp
    with Suc.prems(1) have "\<exists>r. sys_waitpid w pid 0 (k + Suc i) = Some r \<and> interrupted_wait p r" by blast
    then show "\<exists>r. sys_waitpid w pid 0 (Suc k + i) = Some r \<and> interrupted_wait p r" by simp
  qed
  have b: "sys_waitpid w pid 0 (Suc k + n) = Some r" using Suc.prems(2) by simp
  have c: "n < f" using Suc.prems(4) f by simp
  note ih = Suc.IH [OF a b Suc.prems(3) c, of "emit (Waitpid pid 0) st"]
  from r0 ih show ?case
    by (simp add: f Let_def interrupted_wait_def)
qed

text \<open>The result that the loop returns is the return value of one of the waits.\<close>

lemma retry_result_is_reply:
  "snd (temp_failure_retry_waitpid p w pid fuel k (st, ws)) = Returns rc \<Longrightarrow>
     \<exists>j r. sys_waitpid w pid 0 j = Some r \<and> w_ret r = rc"
  by (induction fuel arbitrary: k st ws)
     (auto simp add: Let_def split: option.splits if_splits)

lemma main_report_outcome:
  "snd (main_report p rc ws st) =
     Exited (if rc \<noteq> 0
             then if WIFEXITED p ws then WEXITSTATUS p ws
                  else if WIFSIGNALED p ws then WTERMSIG p ws + 128 else 127
             else 1)"
  by (simp add: main_report_def)

lemma main_report_fields [simp]:
  "verbose_output (fst (main_report p rc ws st)) = verbose_output st"
  "inhibit_reason (fst (main_report p rc ws st)) = inhibit_reason st"
  "application (fst (main_report p rc ws st)) = application st"
  by (simp_all add: main_report_def)

lemma main_report_actions [simp]:
  "actions (trace (fst (main_report p rc ws st))) = actions (trace st)"
  by (simp add: main_report_def)

section \<open>The run as a whole\<close>

lemma main_supervise_unfold:
  "main_supervise p w argv fuel st =
     (let sp = sys_posix_spawnp w (argv_at argv 1) (drop 1 argv);
          st2 = emit (Spawn (argv_at argv 1) (drop 1 argv)) (debug ''Starting process: '' st)
      in if fst sp \<noteq> 0
         then (emit (Fprintf ''Failed to start process: %s\<newline>'' [ArgStrerror (fst sp)]) st2, Exited 1)
         else
           (let R = temp_failure_retry_waitpid p w (snd sp) fuel 0
                      (debug ''OK\<newline>'' st2, wstatus_init w)
            in case snd R of
                 Returns rc \<Rightarrow> main_report p rc (snd (fst R)) (fst (fst R))
               | Blocks \<Rightarrow> (fst (fst R), Blocked)
               | Unfinished \<Rightarrow> (fst (fst R), OutOfFuel)))"
  by (simp add: main_supervise_def Let_def split: prod.split loop_result.split)

lemma main_supervise_independent:
  "snd (main_supervise p w argv fuel st) = snd (main_supervise p w argv fuel st')"
proof -
  let ?sp = "sys_posix_spawnp w (argv_at argv 1) (drop 1 argv)"
  let ?s = "\<lambda>st. debug ''OK\<newline>'' (emit (Spawn (argv_at argv 1) (drop 1 argv)) (debug ''Starting process: '' st))"
  note ind = retry_independent [of p w "snd ?sp" fuel 0 "?s st" "wstatus_init w" "?s st'"]
  show ?thesis
    using ind
    by (simp add: main_supervise_unfold Let_def main_report_outcome split: loop_result.split)
qed

lemma pause_loop_independent:
  "snd (pause_loop w fuel k st) = snd (pause_loop w fuel k st')"
  by (induction fuel arbitrary: k st st') (simp_all add: Let_def)

lemma main_supervise_fields [simp]:
  "verbose_output (fst (main_supervise p w argv fuel st)) = verbose_output st"
  "inhibit_reason (fst (main_supervise p w argv fuel st)) = inhibit_reason st"
  "application (fst (main_supervise p w argv fuel st)) = application st"
  by (simp_all add: main_supervise_unfold Let_def split: loop_result.split)

lemma main_supervise_actions:
  "\<exists>j\<le>fuel. actions (trace (fst (main_supervise p w argv fuel st))) =
      actions (trace st) @ Spawn (argv_at argv 1) (drop 1 argv) #
        replicate j (Waitpid (snd (sys_posix_spawnp w (argv_at argv 1) (drop 1 argv))) 0)"
proof (cases "fst (sys_posix_spawnp w (argv_at argv 1) (drop 1 argv)) \<noteq> 0")
  case True
  then have "actions (trace (fst (main_supervise p w argv fuel st))) =
      actions (trace st) @ Spawn (argv_at argv 1) (drop 1 argv) #
        replicate 0 (Waitpid (snd (sys_posix_spawnp w (argv_at argv 1) (drop 1 argv))) 0)"
    by (simp add: main_supervise_unfold Let_def)
  then show ?thesis by blast
next
  case False
  let ?sp = "sys_posix_spawnp w (argv_at argv 1) (drop 1 argv)"
  let ?st3 = "debug ''OK\<newline>'' (emit (Spawn (argv_at argv 1) (drop 1 argv)) (debug ''Starting process: '' st))"
  let ?R = "temp_failure_retry_waitpid p w (snd ?sp) fuel 0 (?st3, wstatus_init w)"
  from retry_trace [of fuel p w "snd ?sp" 0 ?st3 "wstatus_init w"] obtain j where
    j: "j \<le> fuel" "trace (fst (fst ?R)) = trace ?st3 @ replicate j (Waitpid (snd ?sp) 0)"
    by blast
  have "actions (trace (fst (fst ?R))) =
      actions (trace st) @ Spawn (argv_at argv 1) (drop 1 argv) # replicate j (Waitpid (snd ?sp) 0)"
    using j(2) by simp
  then have "actions (trace (fst (main_supervise p w argv fuel st))) =
      actions (trace st) @ Spawn (argv_at argv 1) (drop 1 argv) # replicate j (Waitpid (snd ?sp) 0)"
    using False by (simp add: main_supervise_unfold Let_def split: loop_result.split)
  with j(1) show ?thesis by blast
qed

lemma main_config_fields [simp]:
  "trace (main_config w argv) = []"
  by (simp add: main_config_def)

lemma main_fields:
  "verbose_output (fst (main p w argv fuel)) = verbose_output (main_config w argv)"
  "inhibit_reason (fst (main p w argv fuel)) = inhibit_reason (main_config w argv)"
  "application (fst (main p w argv fuel)) = application (main_config w argv)"
  by (simp_all add: main_def Let_def)

lemma main_actions:
  assumes "\<not> sys_bus_open_user w <s 0"
  shows "\<exists>j\<le>fuel. actions (trace (fst (main p w argv fuel))) =
      actions (trace (main_inhibit w (main_config w argv))) @
      (if length argv < 2 then replicate j Pause
       else Spawn (argv_at argv 1) (drop 1 argv) #
            replicate j (Waitpid (snd (sys_posix_spawnp w (argv_at argv 1) (drop 1 argv))) 0))"
proof (cases "length argv < 2")
  case True
  from pause_loop_trace [of fuel w 0 "main_inhibit w (main_config w argv)"] obtain j where
    j: "j \<le> fuel"
       "trace (fst (pause_loop w fuel 0 (main_inhibit w (main_config w argv)))) =
          trace (main_inhibit w (main_config w argv)) @ replicate j Pause"
    by blast
  have "actions (trace (fst (main p w argv fuel))) =
      actions (trace (main_inhibit w (main_config w argv))) @ replicate j Pause"
    using assms True by (simp add: main_def Let_def j(2))
  with True j(1) show ?thesis by auto
next
  case False
  from main_supervise_actions [of fuel p w argv "main_inhibit w (main_config w argv)"]
  show ?thesis using assms False by (simp add: main_def Let_def)
qed

lemma main_bus_calls:
  assumes "\<not> sys_bus_open_user w <s 0"
  shows "bus_calls (trace (fst (main p w argv fuel))) =
     [\<lparr>destination = ''org.freedesktop.portal.Desktop'',
       path = ''/org/freedesktop/portal/desktop'',
       interface = ''org.freedesktop.portal.Inhibit'',
       member = ''Inhibit'',
       types = ''sua{sv}'',
       args = [VStr (Some ''''), VInt 8, VInt 1, VStr (Some ''reason''),
               VStr (Some ''s''), VStr (inhibit_reason (main_config w argv))]\<rparr>,
      \<lparr>destination = ''org.freedesktop.ScreenSaver'',
       path = ''/org/freedesktop/ScreenSaver'',
       interface = ''org.freedesktop.ScreenSaver'',
       member = ''Inhibit'',
       types = ''ss'',
       args = [VStr (inhibit_reason (main_config w argv)), VStr (application (main_config w argv))]\<rparr>,
      \<lparr>destination = ''org.freedesktop.PowerManagement.Inhibit'',
       path = ''/org/freedesktop/PowerManagement/Inhibit'',
       interface = ''org.freedesktop.PowerManagement.Inhibit'',
       member = ''Inhibit'',
       types = ''ss'',
       args = [VStr (inhibit_reason (main_config w argv)), VStr (application (main_config w argv))]\<rparr>]"
proof -
  from main_actions [OF assms, of fuel p argv] obtain j where
    "actions (trace (fst (main p w argv fuel))) =
      actions (trace (main_inhibit w (main_config w argv))) @
      (if length argv < 2 then replicate j Pause
       else Spawn (argv_at argv 1) (drop 1 argv) #
            replicate j (Waitpid (snd (sys_posix_spawnp w (argv_at argv 1) (drop 1 argv))) 0))"
    by blast
  then have "bus_calls (actions (trace (fst (main p w argv fuel)))) =
      bus_calls (actions (trace (main_inhibit w (main_config w argv))))"
    by simp
  then show ?thesis
    by (simp add: bus_calls_actions [of "trace (fst (main p w argv fuel))"] main_inhibit_actions)
qed

lemma main_outcome_independent_of_bus:
  "snd (main p (w\<lparr>sys_bus_call_method := f\<rparr>) argv fuel) = snd (main p w argv fuel)"
proof -
  let ?w = "w\<lparr>sys_bus_call_method := f\<rparr>"
  have s: "main_supervise p ?w argv fuel st = main_supervise p w argv fuel st" for st
  proof -
    have r: "temp_failure_retry_waitpid p ?w pid n k x = temp_failure_retry_waitpid p w pid n k x" for pid n k x
      by (induction p ?w pid n k x rule: temp_failure_retry_waitpid.induct) (simp_all add: Let_def split: option.split)
    show ?thesis by (simp add: main_supervise_unfold Let_def r)
  qed
  have l: "pause_loop ?w fuel k st = pause_loop w fuel k st" for k st
    by (induction fuel arbitrary: k st) (simp_all add: Let_def)
  show ?thesis
    using main_supervise_independent [of p w argv fuel "main_inhibit ?w (main_config ?w argv)" "main_inhibit w (main_config w argv)"]
      pause_loop_independent [of w fuel 0 "main_inhibit ?w (main_config ?w argv)" "main_inhibit w (main_config w argv)"]
    by (simp add: main_def Let_def s l)
qed

lemma positive_pid_neq:
  "0 <s (pid :: c_int) \<Longrightarrow> pid \<noteq> 0 \<and> pid \<noteq> - 1"
  by (auto simp add: word_sless_alt)

lemma main_outcome_after_wait:
  assumes bus: "\<not> sys_bus_open_user w <s 0"
    and cmd: "2 \<le> length argv"
    and spawn: "sys_posix_spawnp w (argv_at argv 1) (drop 1 argv) = (0, pid)"
    and intr: "\<forall>i<n. \<exists>r. sys_waitpid w pid 0 i = Some r \<and> interrupted_wait p r"
    and rep: "sys_waitpid w pid 0 n = Some r"
    and fin: "\<not> (w_ret r = - 1 \<and> w_errno r = EINTR p)"
    and fuel: "n < fuel"
  shows "snd (main p w argv fuel) =
     snd (main_report p (w_ret r) (case w_status r of None \<Rightarrow> wstatus_init w | Some s \<Rightarrow> s) st)"
proof -
  let ?st3 = "debug ''OK\<newline>'' (emit (Spawn (argv_at argv 1) (drop 1 argv))
                (debug ''Starting process: '' (main_inhibit w (main_config w argv))))"
  from intr have intr': "\<forall>i<n. \<exists>r. sys_waitpid w pid 0 (0 + i) = Some r \<and> interrupted_wait p r"
    by simp
  from rep have rep': "sys_waitpid w pid 0 (0 + n) = Some r" by simp
  note R = retry_returns [OF intr' rep' fin fuel, of ?st3 "wstatus_init w"]
  have "snd (main p w argv fuel) = snd (main_supervise p w argv fuel (main_inhibit w (main_config w argv)))"
    using bus cmd by (simp add: main_def Let_def)
  also have "\<dots> = snd (main_report p (w_ret r)
       (case w_status r of None \<Rightarrow> wstatus_init w | Some s \<Rightarrow> s) st)"
    using spawn R by (simp add: main_supervise_unfold Let_def main_report_outcome)
  finally show ?thesis .
qed

section \<open>Exit code of a supervised child\<close>

text \<open>
  Claim C1. When the wait reports a status of the child (it returns the child's process
  identifier and stores the status, possibly after interrupted attempts), the exit code
  of the program is determined by that status alone: the exit code of a child that
  exited normally (0 for 0, \<open>N\<close> for \<open>N\<close>), 128 plus the signal number for a child
  killed by a signal, and 127 for every other status. The status macros are those of the
  platform; a status is not both an exit and a signal death. The sum is the sum of the
  code, on machine integers.
\<close>

theorem exit_code_from_status:
  assumes bus: "\<not> sys_bus_open_user w <s 0"
    and cmd: "2 \<le> length argv"
    and spawn: "sys_posix_spawnp w (argv_at argv 1) (drop 1 argv) = (0, pid)"
    and pid: "0 <s pid"
    and intr: "\<forall>i<n. \<exists>r. sys_waitpid w pid 0 i = Some r \<and> interrupted_wait p r"
    and rep: "sys_waitpid w pid 0 n = Some \<lparr>w_ret = pid, w_errno = e, w_status = Some ws\<rparr>"
    and fuel: "n < fuel"
    and excl: "\<not> (WIFEXITED p ws \<and> WIFSIGNALED p ws)"
  shows "(WIFEXITED p ws \<and> WEXITSTATUS p ws = 0 \<longrightarrow> snd (main p w argv fuel) = Exited 0) \<and>
         (WIFEXITED p ws \<longrightarrow> snd (main p w argv fuel) = Exited (WEXITSTATUS p ws)) \<and>
         (WIFSIGNALED p ws \<longrightarrow> snd (main p w argv fuel) = Exited (128 + WTERMSIG p ws)) \<and>
         (\<not> WIFEXITED p ws \<and> \<not> WIFSIGNALED p ws \<longrightarrow> snd (main p w argv fuel) = Exited 127)"
proof -
  let ?r = "\<lparr>w_ret = pid, w_errno = e, w_status = Some ws\<rparr>"
  from positive_pid_neq [OF pid] have ne: "pid \<noteq> 0" "pid \<noteq> - 1" by simp_all
  have fin: "\<not> (w_ret ?r = - 1 \<and> w_errno ?r = EINTR p)" using ne by simp
  from main_outcome_after_wait [OF bus cmd spawn intr rep fin fuel]
  have "snd (main p w argv fuel) =
      Exited (if WIFEXITED p ws then WEXITSTATUS p ws
              else if WIFSIGNALED p ws then WTERMSIG p ws + 128 else 127)"
    using ne by (simp add: main_report_outcome)
  with excl show ?thesis by (auto simp add: add.commute)
qed

theorem exit_code_from_status_witness:
  "WIFSIGNALED linux_platform 9 \<and> WTERMSIG linux_platform 9 = 9 \<and>
   snd (main linux_platform sample_os [''inhibit'', ''game''] (Suc (Suc 0))) = Exited 137"
  using exit_code_from_status [of sample_os "[''inhibit'', ''game'']" 4242 "Suc 0" linux_platform 0 9
      "Suc (Suc 0)"]
  by (simp add: sample_os_def linux_platform_def argv_at_def interrupted_wait_def word_sless_alt)

text \<open>
  Claim C5. Let the wait for the child \<open>pid\<close> be interrupted \<open>n\<close> times by signal
  deliveries before it reports \<open>r\<close>. The run ends with the same exit code as a run in
  which the first wait reports \<open>r\<close> at once, and both runs do end.
\<close>

theorem interrupted_wait_same_exit_code:
  assumes cmd: "2 \<le> length argv"
    and spawn: "sys_posix_spawnp w (argv_at argv 1) (drop 1 argv) = (ret, pid)"
    and intr: "\<forall>i<n. \<exists>r. sys_waitpid w pid 0 i = Some r \<and> interrupted_wait p r"
    and rep: "sys_waitpid w pid 0 n = Some r"
    and fin: "\<not> (w_ret r = - 1 \<and> w_errno r = EINTR p)"
    and direct: "f pid 0 0 = Some r"
    and fuel: "n < fuel" "0 < fuel'"
  shows "snd (main p w argv fuel) = snd (main p (w\<lparr>sys_waitpid := f\<rparr>) argv fuel') \<and>
         (\<exists>c. snd (main p w argv fuel) = Exited c)"
proof -
  let ?w = "w\<lparr>sys_waitpid := f\<rparr>"
  show ?thesis
  proof (cases "sys_bus_open_user w <s 0")
    case True
    then show ?thesis by (simp add: main_def Let_def)
  next
    case bus: False
    show ?thesis
    proof (cases "ret = 0")
      case False
      then show ?thesis using bus cmd spawn
        by (simp add: main_def Let_def main_supervise_unfold)
    next
      case True
      have sp: "sys_posix_spawnp w (argv_at argv 1) (drop 1 argv) = (0, pid)"
        using spawn True by simp
      have bus': "\<not> sys_bus_open_user ?w <s 0" using bus by simp
      have sp': "sys_posix_spawnp ?w (argv_at argv 1) (drop 1 argv) = (0, pid)" using sp by simp
      have intr': "\<forall>i<0. \<exists>r. sys_waitpid ?w pid 0 i = Some r \<and> interrupted_wait p r" by simp
      have rep': "sys_waitpid ?w pid 0 0 = Some r" using direct by simp
      from main_outcome_after_wait [OF bus cmd sp intr rep fin fuel(1)]
        main_outcome_after_wait [OF bus' cmd sp' intr' rep' fin fuel(2)]
      show ?thesis by (cases "w_status r") (simp_all add: main_report_outcome)
    qed
  qed
qed

theorem interrupted_wait_same_exit_code_witness:
  "snd (main linux_platform sample_os [''inhibit'', ''game''] (Suc (Suc 0))) =
   snd (main linux_platform
          (sample_os\<lparr>sys_waitpid :=
             (\<lambda>pid opts k. Some \<lparr>w_ret = 4242, w_errno = 0, w_status = Some 9\<rparr>)\<rparr>)
          [''inhibit'', ''game''] (Suc 0)) \<and>
   sys_waitpid sample_os 4242 0 0 = Some \<lparr>w_ret = - 1, w_errno = 4, w_status = None\<rparr>"
  using interrupted_wait_same_exit_code
    [where argv = "[''inhibit'', ''game'']" and n = "Suc 0" and w = sample_os and p = linux_platform
       and ret = 0 and pid = 4242
       and r = "\<lparr>w_ret = 4242, w_errno = 0, w_status = Some 9\<rparr>"
       and f = "\<lambda>pid opts k. Some \<lparr>w_ret = 4242, w_errno = 0, w_status = Some 9\<rparr>"
       and fuel = "Suc (Suc 0)" and fuel' = "Suc 0"]
  by (simp add: sample_os_def linux_platform_def interrupted_wait_def)

section \<open>The inhibition requests\<close>

lemma actions_mem: "e \<in> set tr \<Longrightarrow> \<not> is_stderr e \<Longrightarrow> e \<in> set (actions tr)"
  by (simp add: actions_def)

lemma main_inhibit_bus_calls_length:
  "length (bus_calls (trace (main_inhibit w (main_config w argv)))) = 3"
proof -
  have "bus_calls (trace (main_inhibit w (main_config w argv))) =
      bus_calls (actions (trace (main_inhibit w (main_config w argv))))"
    by (simp add: bus_calls_actions)
  then show ?thesis by (simp add: main_inhibit_actions)
qed

text \<open>
  Claim C2. Once the bus is open, every run sends the three requests in the same order:
  first to the portal, then to the screen saver, then to the power management. This
  holds for every reply of the bus, so a failed attempt does not stop the later ones;
  and neither the requests sent nor the way the run ends depend on the replies (\<open>f\<close> is
  any other behaviour of the bus), so no failure reaches the rest of \<open>main\<close>.
\<close>

theorem inhibit_attempts_all_made_in_order:
  assumes bus: "\<not> sys_bus_open_user w <s 0"
  shows "map destination (bus_calls (trace (fst (main p w argv fuel)))) =
           [''org.freedesktop.portal.Desktop'', ''org.freedesktop.ScreenSaver'',
            ''org.freedesktop.PowerManagement.Inhibit''] \<and>
         bus_calls (trace (fst (main p (w\<lparr>sys_bus_call_method := f\<rparr>) argv fuel))) =
           bus_calls (trace (fst (main p w argv fuel))) \<and>
         snd (main p (w\<lparr>sys_bus_call_method := f\<rparr>) argv fuel) = snd (main p w argv fuel)"
proof -
  let ?w = "w\<lparr>sys_bus_call_method := f\<rparr>"
  have bus': "\<not> sys_bus_open_user ?w <s 0" using bus by simp
  have cfg: "main_config ?w argv = main_config w argv" by (simp add: main_config_def)
  have a: "map destination (bus_calls (trace (fst (main p w argv fuel)))) =
           [''org.freedesktop.portal.Desktop'', ''org.freedesktop.ScreenSaver'',
            ''org.freedesktop.PowerManagement.Inhibit'']"
    by (simp add: main_bus_calls [OF bus])
  have b: "bus_calls (trace (fst (main p ?w argv fuel))) = bus_calls (trace (fst (main p w argv fuel)))"
    by (simp add: main_bus_calls [OF bus] main_bus_calls [OF bus'] cfg)
  from a b main_outcome_independent_of_bus [of p f w argv fuel] show ?thesis by blast
qed

theorem inhibit_attempts_all_made_in_order_witness:
  "r_ret (sys_bus_call_method sample_os
      \<lparr>destination = ''org.freedesktop.portal.Desktop'', path = ''/org/freedesktop/portal/desktop'',
       interface = ''org.freedesktop.portal.Inhibit'', member = ''Inhibit'', types = ''sua{sv}'',
       args = [VStr (Some ''''), VInt 8, VInt 1, VStr (Some ''reason''), VStr (Some ''s''),
               VStr (Some ''X'')]\<rparr>) <s 0 \<and>
   map destination (bus_calls (trace (fst (main linux_platform sample_os [''inhibit'', ''game''] 5)))) =
     [''org.freedesktop.portal.Desktop'', ''org.freedesktop.ScreenSaver'',
      ''org.freedesktop.PowerManagement.Inhibit'']"
  using inhibit_attempts_all_made_in_order [of sample_os linux_platform "[''inhibit'', ''game'']" 5]
  by (simp add: sample_os_def word_sless_alt)

text \<open>
  Claim C6. Each of the three requests calls the member \<open>Inhibit\<close>. The portal request
  has the type string \<open>sua{sv}\<close> and the arguments: the empty string (window
  identifier), 8 (flags), then the dictionary, written as sd-bus takes it: 1 (number of
  entries), the key \<open>reason\<close>, the type \<open>s\<close> of the variant, and the reason. The two other
  requests have the type string \<open>ss\<close> and exactly two arguments: the reason, then the
  application.
\<close>

theorem inhibit_call_arguments:
  assumes bus: "\<not> sys_bus_open_user w <s 0"
  shows "map (\<lambda>r. (member r, types r, args r)) (bus_calls (trace (fst (main p w argv fuel)))) =
     [(''Inhibit'', ''sua{sv}'',
       [VStr (Some ''''), VInt 8, VInt 1, VStr (Some ''reason''), VStr (Some ''s''),
        VStr (inhibit_reason (fst (main p w argv fuel)))]),
      (''Inhibit'', ''ss'',
       [VStr (inhibit_reason (fst (main p w argv fuel))), VStr (application (fst (main p w argv fuel)))]),
      (''Inhibit'', ''ss'',
       [VStr (inhibit_reason (fst (main p w argv fuel))), VStr (application (fst (main p w argv fuel)))])]"
  by (simp add: main_bus_calls [OF bus] main_fields)

theorem inhibit_call_arguments_witness:
  "map (\<lambda>r. (member r, types r, args r))
     (bus_calls (trace (fst (main linux_platform sample_os [''inhibit'', ''game''] 5)))) =
     [(''Inhibit'', ''sua{sv}'',
       [VStr (Some ''''), VInt 8, VInt 1, VStr (Some ''reason''), VStr (Some ''s''), VStr (Some ''X'')]),
      (''Inhibit'', ''ss'', [VStr (Some ''X''), VStr (Some ''game'')]),
      (''Inhibit'', ''ss'', [VStr (Some ''X''), VStr (Some ''game'')])]"
  using inhibit_call_arguments [of sample_os linux_platform "[''inhibit'', ''game'']" 5]
  by (simp add: main_fields main_config_def sample_os_def argv_at_def word_sless_alt)

text \<open>
  Claim C7. The reason carried by the three requests, and held by the global variable
  at every point of the run, is the value of \<open>INHIBIT_REASON\<close> when the variable is set,
  and \<open>A game is running\<close> when it is not.
\<close>

theorem reason_from_environment:
  assumes bus: "\<not> sys_bus_open_user w <s 0"
  shows "(sys_getenv w ''INHIBIT_REASON'' = Some x \<longrightarrow>
            inhibit_reason (fst (main p w argv fuel)) = Some x \<and>
            map args (bus_calls (trace (fst (main p w argv fuel)))) =
              [[VStr (Some ''''), VInt 8, VInt 1, VStr (Some ''reason''), VStr (Some ''s''), VStr (Some x)],
               [VStr (Some x), VStr (application (fst (main p w argv fuel)))],
               [VStr (Some x), VStr (application (fst (main p w argv fuel)))]]) \<and>
         (sys_getenv w ''INHIBIT_REASON'' = None \<longrightarrow>
            inhibit_reason (fst (main p w argv fuel)) = Some ''A game is running'' \<and>
            map args (bus_calls (trace (fst (main p w argv fuel)))) =
              [[VStr (Some ''''), VInt 8, VInt 1, VStr (Some ''reason''), VStr (Some ''s''),
                VStr (Some ''A game is running'')],
               [VStr (Some ''A game is running''), VStr (application (fst (main p w argv fuel)))],
               [VStr (Some ''A game is running''), VStr (application (fst (main p w argv fuel)))]])"
  by (simp add: main_bus_calls [OF bus] main_fields main_config_def)

theorem reason_from_environment_witness:
  "sys_getenv echild_os ''INHIBIT_REASON'' = None \<and>
   map args (bus_calls (trace (fst (main linux_platform echild_os [''inhibit''] 7)))) =
     [[VStr (Some ''''), VInt 8, VInt 1, VStr (Some ''reason''), VStr (Some ''s''),
       VStr (Some ''A game is running'')],
      [VStr (Some ''A game is running''), VStr (Some ''inhibit'')],
      [VStr (Some ''A game is running''), VStr (Some ''inhibit'')]] \<and>
   sys_getenv sample_os ''INHIBIT_REASON'' = Some ''X'' \<and>
   map args (bus_calls (trace (fst (main linux_platform sample_os [''inhibit''] 7)))) =
     [[VStr (Some ''''), VInt 8, VInt 1, VStr (Some ''reason''), VStr (Some ''s''), VStr (Some ''X'')],
      [VStr (Some ''X''), VStr (Some ''inhibit'')],
      [VStr (Some ''X''), VStr (Some ''inhibit'')]]"
proof -
  have a: "application (fst (main linux_platform echild_os [''inhibit''] 7)) = Some ''inhibit''"
          "application (fst (main linux_platform sample_os [''inhibit''] 7)) = Some ''inhibit''"
    by (simp_all add: main_fields main_config_def argv_at_def)
  show ?thesis
    using reason_from_environment [of echild_os "''X''" linux_platform "[''inhibit'']" 7]
      reason_from_environment [of sample_os "''X''" linux_platform "[''inhibit'']" 7] a
    by (simp add: echild_os_def sample_os_def word_sless_alt)
qed

text \<open>
  Claim C8. The application identifier is the first argument after the program name
  when there is one, and \<open>argv[0]\<close> otherwise (the program name when the argument
  vector has one entry); the global variable holds it at every point of the run, and the
  screen-saver and power-management requests carry it as their second argument.
\<close>

theorem application_from_arguments:
  "(2 \<le> length argv \<longrightarrow> application (fst (main p w argv fuel)) = Some (argv ! 1)) \<and>
   (length argv < 2 \<longrightarrow> application (fst (main p w argv fuel)) = argv_at argv 0) \<and>
   (length argv = 1 \<longrightarrow> application (fst (main p w argv fuel)) = Some (argv ! 0)) \<and>
   (\<not> sys_bus_open_user w <s 0 \<longrightarrow>
      map args (drop 1 (bus_calls (trace (fst (main p w argv fuel))))) =
        [[VStr (inhibit_reason (fst (main p w argv fuel))), VStr (application (fst (main p w argv fuel)))],
         [VStr (inhibit_reason (fst (main p w argv fuel))), VStr (application (fst (main p w argv fuel)))]])"
proof -
  have "\<not> sys_bus_open_user w <s 0 \<longrightarrow>
      map args (drop 1 (bus_calls (trace (fst (main p w argv fuel))))) =
        [[VStr (inhibit_reason (fst (main p w argv fuel))), VStr (application (fst (main p w argv fuel)))],
         [VStr (inhibit_reason (fst (main p w argv fuel))), VStr (application (fst (main p w argv fuel)))]]"
    by (simp add: main_bus_calls main_fields)
  then show ?thesis
    by (simp add: main_fields main_config_def argv_at_def)
qed

theorem application_from_arguments_witness:
  "application (fst (main linux_platform sample_os [''inhibit'', ''game'', ''-x''] 3)) = Some ''game'' \<and>
   map args (drop 1 (bus_calls (trace (fst (main linux_platform sample_os [''inhibit'', ''game'', ''-x''] 3))))) =
     [[VStr (Some ''X''), VStr (Some ''game'')], [VStr (Some ''X''), VStr (Some ''game'')]]"
proof -
  have r: "inhibit_reason (fst (main linux_platform sample_os [''inhibit'', ''game'', ''-x''] 3)) = Some ''X''"
    by (simp add: main_fields main_config_def sample_os_def)
  show ?thesis
    using application_from_arguments [of "[''inhibit'', ''game'', ''-x'']" linux_platform sample_os 3] r
    by (simp add: sample_os_def word_sless_alt)
qed

section \<open>Running without a command\<close>

lemma main_trace_no_command:
  assumes bus: "\<not> sys_bus_open_user w <s 0" and none: "length argv < 2"
  shows "\<exists>j\<le>fuel. trace (fst (main p w argv fuel)) =
           trace (main_inhibit w (main_config w argv)) @ replicate j Pause"
  using pause_loop_trace [of fuel w 0 "main_inhibit w (main_config w argv)"] bus none
  by (simp add: main_def Let_def)

text \<open>
  Claim C9. With no argument after the program name and the bus open, the run never
  ends, however much fuel its loop is given: it is blocked in \<open>pause\<close> or still looping
  (and still looping whenever every \<open>pause\<close> so far has returned). After the inhibition
  phase, with its three requests, it does nothing but call \<open>pause\<close>: no process is
  started, no wait is made, nothing is written.
\<close>

theorem no_command_never_exits:
  assumes bus: "\<not> sys_bus_open_user w <s 0" and none: "length argv < 2"
  shows "(snd (main p w argv fuel) = Blocked \<or> snd (main p w argv fuel) = OutOfFuel) \<and>
         (\<exists>j\<le>fuel. trace (fst (main p w argv fuel)) =
            trace (main_inhibit w (main_config w argv)) @ replicate j Pause) \<and>
         length (bus_calls (trace (main_inhibit w (main_config w argv)))) = 3 \<and>
         ((\<forall>k<fuel. sys_pause w k) \<longrightarrow> snd (main p w argv fuel) = OutOfFuel)"
proof -
  have "snd (pause_loop w fuel 0 (main_inhibit w (main_config w argv))) \<noteq> Exited c" for c
    by (rule pause_loop_not_exited)
  then have a: "snd (main p w argv fuel) = Blocked \<or> snd (main p w argv fuel) = OutOfFuel"
    using bus none by (cases "snd (main p w argv fuel)") (simp_all add: main_def Let_def)
  have l: "(\<forall>i<n. sys_pause w (k + i)) \<Longrightarrow> snd (pause_loop w n k st) = OutOfFuel" for n k st
  proof (induction n arbitrary: k st)
    case 0
    then show ?case by simp
  next
    case (Suc n)
    from Suc.prems have h: "sys_pause w k" by (metis add.right_neutral zero_less_Suc)
    have "\<forall>i<n. sys_pause w (Suc k + i)"
    proof (intro allI impI)
      fix i assume "i < n"
      then have "sys_pause w (k + Suc i)" using Suc.prems by (metis Suc_less_eq)
      then show "sys_pause w (Suc k + i)" by simp
    qed
    from Suc.IH [OF this] h show ?case by (simp add: Let_def)
  qed
  have b: "(\<forall>k<fuel. sys_pause w k) \<longrightarrow> snd (main p w argv fuel) = OutOfFuel"
    using l [of fuel 0 "main_inhibit w (main_config w argv)"] bus none
    by (simp add: main_def Let_def)
  from a b main_trace_no_command [OF bus none] main_inhibit_bus_calls_length show ?thesis
    by blast
qed

theorem no_command_never_exits_witness:
  "snd (main linux_platform sample_os [''inhibit''] 5) = OutOfFuel \<and>
   (\<exists>j\<le>5. trace (fst (main linux_platform sample_os [''inhibit''] 5)) =
      trace (main_inhibit sample_os (main_config sample_os [''inhibit''])) @ replicate j Pause)"
  using no_command_never_exits [of sample_os "[''inhibit'']" linux_platform 5]
  by (simp add: sample_os_def word_sless_alt)

section \<open>Failure of the spawn\<close>

text \<open>
  Claim C4. When \<open>posix_spawnp\<close> returns an error number, the run ends with exit code 1;
  the last thing it does is to write the failure with the message of that error number
  to the error stream; apart from its writes to the error stream it has made the bus
  requests and the one call of \<open>posix_spawnp\<close>, and no call of \<open>waitpid\<close>.
\<close>

theorem spawn_failure_exits_without_wait:
  assumes bus: "\<not> sys_bus_open_user w <s 0"
    and cmd: "2 \<le> length argv"
    and spawn: "sys_posix_spawnp w (argv_at argv 1) (drop 1 argv) = (ret, pid)"
    and fail: "ret \<noteq> 0"
  shows "snd (main p w argv fuel) = Exited 1 \<and>
         last (trace (fst (main p w argv fuel))) =
           Fprintf ''Failed to start process: %s\<newline>'' [ArgStrerror ret] \<and>
         actions (trace (fst (main p w argv fuel))) =
           map BusCall (bus_calls (trace (fst (main p w argv fuel)))) @
           [Spawn (argv_at argv 1) (drop 1 argv)] \<and>
         (\<forall>c opts. Waitpid c opts \<notin> set (trace (fst (main p w argv fuel))))"
proof -
  let ?st = "main_inhibit w (main_config w argv)"
  have m: "main p w argv fuel = main_supervise p w argv fuel ?st"
    using bus cmd by (simp add: main_def Let_def)
  have a: "snd (main p w argv fuel) = Exited 1"
    using spawn fail by (simp add: m main_supervise_unfold Let_def)
  have b: "last (trace (fst (main p w argv fuel))) =
      Fprintf ''Failed to start process: %s\<newline>'' [ArgStrerror ret]"
    using spawn fail by (simp add: m main_supervise_unfold Let_def)
  have "actions (trace (fst (main p w argv fuel))) =
      actions (trace ?st) @ [Spawn (argv_at argv 1) (drop 1 argv)]"
    using spawn fail by (simp add: m main_supervise_unfold Let_def)
  then have c: "actions (trace (fst (main p w argv fuel))) =
      map BusCall (bus_calls (trace (fst (main p w argv fuel)))) @
      [Spawn (argv_at argv 1) (drop 1 argv)]"
    by (simp add: main_bus_calls [OF bus] main_inhibit_actions)
  have d: "Waitpid c opts \<notin> set (trace (fst (main p w argv fuel)))" for c opts
  proof
    assume "Waitpid c opts \<in> set (trace (fst (main p w argv fuel)))"
    then have "Waitpid c opts \<in> set (actions (trace (fst (main p w argv fuel))))"
      by (rule actions_mem) simp
    then show False unfolding c by auto
  qed
  from a b c d show ?thesis by blast
qed

theorem spawn_failure_exits_without_wait_witness:
  "snd (main linux_platform (sample_os\<lparr>sys_posix_spawnp := (\<lambda>file argv. (2, 0))\<rparr>)
          [''inhibit'', ''nonexistent''] 5) = Exited 1 \<and>
   last (trace (fst (main linux_platform (sample_os\<lparr>sys_posix_spawnp := (\<lambda>file argv. (2, 0))\<rparr>)
          [''inhibit'', ''nonexistent''] 5))) =
     Fprintf ''Failed to start process: %s\<newline>'' [ArgStrerror 2]"
  using spawn_failure_exits_without_wait
    [of "sample_os\<lparr>sys_posix_spawnp := (\<lambda>file argv. (2, 0))\<rparr>" "[''inhibit'', ''nonexistent'']" 2 0
        linux_platform 5]
  by (simp add: sample_os_def word_sless_alt)

section \<open>Failure of the wait\<close>

text \<open>
  Claim C3. The code does not do what the claim says. In \<open>echild_os\<close> the wait cannot
  determine the status of the child: it fails with \<open>ECHILD\<close> and stores nothing. The result
  \<open>-1\<close> passes the guard \<open>rc != 0\<close> of line 114, which lets only 0 through to the branch
  for a child without status, so \<open>wstatus\<close> is classified although it was never written:
  the exit code is what its content happens to decode to, 0 for the content 0 and 137 for
  the content 9, and not 127.
\<close>

theorem failed_wait_classifies_unset_status:
  "sys_waitpid echild_os 4242 0 0 = Some \<lparr>w_ret = - 1, w_errno = 10, w_status = None\<rparr> \<and>
   snd (main linux_platform echild_os [''inhibit'', ''true''] (Suc 0)) = Exited 0 \<and>
   snd (main linux_platform echild_os [''inhibit'', ''true''] (Suc 0)) \<noteq> Exited 127 \<and>
   snd (main linux_platform (echild_os\<lparr>wstatus_init := 9\<rparr>) [''inhibit'', ''true''] (Suc 0)) =
     Exited 137"
  by (simp add: main_def main_config_def main_supervise_def main_report_def echild_os_def
      linux_platform_def argv_at_def Let_def word_sless_alt)

text \<open>No step of the inhibition phase writes the message of lines 131 and 132.\<close>

lemma portal_no_child_message:
  "Fprintf ''Child process does not exist'' [] \<in> set (trace (snd (inhibit_via_inhibit_portal w st))) \<longleftrightarrow>
   Fprintf ''Child process does not exist'' [] \<in> set (trace st)"
  by (simp add: inhibit_via_inhibit_portal_def Let_def)

lemma screen_saver_no_child_message:
  "Fprintf ''Child process does not exist'' [] \<in> set (trace (snd (inhibit_via_screen_saver w st))) \<longleftrightarrow>
   Fprintf ''Child process does not exist'' [] \<in> set (trace st)"
  by (simp add: inhibit_via_screen_saver_def Let_def)

lemma power_management_no_child_message:
  "Fprintf ''Child process does not exist'' [] \<in> set (trace (snd (inhibit_via_power_management w st))) \<longleftrightarrow>
   Fprintf ''Child process does not exist'' [] \<in> set (trace st)"
  by (simp add: inhibit_via_power_management_def Let_def)

lemma inhibit_no_child_message:
  "Fprintf ''Child process does not exist'' [] \<notin> set (trace (main_inhibit w (main_config w argv)))"
  by (simp add: main_inhibit_def Let_def portal_no_child_message screen_saver_no_child_message
      power_management_no_child_message)

text \<open>
  Claim C10. Let \<open>waitpid\<close> keep to its contract: it returns 0 only when it is called with
  \<open>WNOHANG\<close> among its options. Line 113 calls it with the options 0, so the retried wait
  never results in 0, whatever child it waits for, and no run writes
  \<open>Child process does not exist\<close>: the branch of lines 131 and 132 is never taken.
\<close>

theorem no_child_branch_unreachable:
  assumes wait: "\<forall>c opts k r. sys_waitpid w c opts k = Some r \<and> w_ret r = 0 \<longrightarrow> opts AND WNOHANG p \<noteq> 0"
  shows "snd (temp_failure_retry_waitpid p w c fuel 0 (st, ws)) \<noteq> Returns 0 \<and>
         Fprintf ''Child process does not exist'' [] \<notin> set (trace (fst (main p w argv fuel)))"
proof -
  have rc: "rc \<noteq> 0" if "snd (temp_failure_retry_waitpid p w c' fuel 0 (st', ws')) = Returns rc"
    for rc c' st' ws'
  proof
    assume z: "rc = 0"
    from retry_result_is_reply [OF that] obtain k r where
      r: "sys_waitpid w c' 0 k = Some r" "w_ret r = rc" by blast
    with wait z have "(0 :: c_int) AND WNOHANG p \<noteq> 0" by blast
    then show False by simp
  qed
  then have a: "snd (temp_failure_retry_waitpid p w c fuel 0 (st, ws)) \<noteq> Returns 0" by blast
  have b: "Fprintf ''Child process does not exist'' [] \<notin> set (trace (fst (main p w argv fuel)))"
  proof (cases "sys_bus_open_user w <s 0")
    case True
    then show ?thesis by (simp add: main_def Let_def)
  next
    case bus: False
    let ?st = "main_inhibit w (main_config w argv)"
    note i = inhibit_no_child_message [of w argv]
    show ?thesis
    proof (cases "length argv < 2")
      case True
      from main_trace_no_command [OF bus True, of fuel p] i show ?thesis by auto
    next
      case False
      then have m: "main p w argv fuel = main_supervise p w argv fuel ?st"
        using bus by (simp add: main_def Let_def)
      obtain ret pid where spawn: "sys_posix_spawnp w (argv_at argv 1) (drop 1 argv) = (ret, pid)"
        by (cases "sys_posix_spawnp w (argv_at argv 1) (drop 1 argv)")
      show ?thesis
      proof (cases "ret = 0")
        case False
        then show ?thesis using spawn i by (simp add: m main_supervise_unfold Let_def)
      next
        case True
        let ?st3 = "debug ''OK\<newline>'' (emit (Spawn (argv_at argv 1) (drop 1 argv))
                      (debug ''Starting process: '' ?st))"
        let ?R = "temp_failure_retry_waitpid p w pid fuel 0 (?st3, wstatus_init w)"
        from retry_trace [of fuel p w pid 0 ?st3 "wstatus_init w"] obtain j where
          j: "trace (fst (fst ?R)) = trace ?st3 @ replicate j (Waitpid pid 0)" by blast
        have t: "Fprintf ''Child process does not exist'' [] \<notin> set (trace (fst (fst ?R)))"
          using i j by simp
        show ?thesis
        proof (cases "snd ?R")
          case (Returns rc')
          with rc have "rc' \<noteq> 0" by blast
          then show ?thesis using spawn True t Returns
            by (simp add: m main_supervise_unfold Let_def main_report_def)
        next
          case Blocks
          then show ?thesis using spawn True t by (simp add: m main_supervise_unfold Let_def)
        next
          case Unfinished
          then show ?thesis using spawn True t by (simp add: m main_supervise_unfold Let_def)
        qed
      qed
    qed
  qed
  from a b show ?thesis by blast
qed

text \<open>
  The contract holds in \<open>polling_os\<close>, whose \<open>waitpid\<close> does return 0 to every call made
  with \<open>WNOHANG\<close>; the run there ends with the exit code of the child.
\<close>

theorem no_child_branch_unreachable_witness:
  "sys_waitpid polling_os 4242 1 0 = Some \<lparr>w_ret = 0, w_errno = 0, w_status = None\<rparr> \<and>
   snd (main linux_platform polling_os [''inhibit'', ''true''] (Suc 0)) = Exited 7 \<and>
   snd (temp_failure_retry_waitpid linux_platform polling_os 4242 (Suc 0) 0
          (main_config polling_os [''inhibit'', ''true''], 0)) \<noteq> Returns 0 \<and>
   Fprintf ''Child process does not exist'' [] \<notin>
     set (trace (fst (main linux_platform polling_os [''inhibit'', ''true''] (Suc 0))))"
proof -
  have e: "snd (main linux_platform polling_os [''inhibit'', ''true''] (Suc 0)) = Exited 7"
    by (simp add: main_def main_config_def main_supervise_def main_report_def polling_os_def
        linux_platform_def argv_at_def Let_def word_sless_alt)
  have contract: "\<forall>c opts k r. sys_waitpid polling_os c opts k = Some r \<and> w_ret r = 0 \<longrightarrow>
             opts AND WNOHANG linux_platform \<noteq> 0"
    by (auto simp add: polling_os_def linux_platform_def split: if_splits)
  from no_child_branch_unreachable
         [OF contract, where c = 4242 and fuel = "Suc 0" and ws = 0
            and st = "main_config polling_os [''inhibit'', ''true'']"
            and argv = "[''inhibit'', ''true'']"] e
  show ?thesis by (simp add: polling_os_def)
qed

text \<open>
  The branch is there in the model: an environment outside that contract, whose wait
  returns 0, takes it.
\<close>

lemma zero_wait_result_takes_no_child_branch:
  "last (trace (fst (main linux_platform
      (sample_os\<lparr>sys_waitpid := (\<lambda>pid opts k. Some \<lparr>w_ret = 0, w_errno = 0, w_status = None\<rparr>)\<rparr>)
      [''inhibit'', ''game''] (Suc 0)))) = Fprintf ''Child process does not exist'' []"
  by (simp add: main_def main_config_def main_supervise_def main_report_def sample_os_def
      linux_platform_def argv_at_def Let_def word_sless_alt)

lemma linux_status_exclusive:
  "\<not> (WIFEXITED linux_platform s \<and> WIFSIGNALED linux_platform s)"
  by (auto simp add: linux_platform_def)

section \<open>Runs on the Linux encoding of the status\<close>

lemma linux_termsig_no_wrap:
  "unat (WTERMSIG linux_platform s + 128) = unat (WTERMSIG linux_platform s) + 128"
proof -
  have "s AND 0x7f \<le> 0x7f" by (rule word_and_le1)
  then have "unat (s AND 0x7f) \<le> 127" by (simp add: word_le_nat_alt)
  then show ?thesis by (simp add: linux_platform_def unat_word_ariths)
qed

lemma run_exit_0:
  "snd (main linux_platform
      (sample_os\<lparr>sys_waitpid := (\<lambda>pid opts k. Some \<lparr>w_ret = 4242, w_errno = 0, w_status = Some 0\<rparr>)\<rparr>)
      [''inhibit'', ''true''] (Suc 0)) = Exited 0"
  by (simp add: main_def main_config_def main_supervise_def main_report_def sample_os_def
      linux_platform_def argv_at_def Let_def word_sless_alt)

lemma run_exit_7:
  "snd (main linux_platform
      (sample_os\<lparr>sys_waitpid := (\<lambda>pid opts k. Some \<lparr>w_ret = 4242, w_errno = 0, w_status = Some 0x700\<rparr>)\<rparr>)
      [''inhibit'', ''sh'', ''-c'', ''exit 7''] (Suc 0)) = Exited 7"
  by (simp add: main_def main_config_def main_supervise_def main_report_def sample_os_def
      linux_platform_def argv_at_def Let_def word_sless_alt)

end
